theory Spec2Isabelle
  imports Main "HOL-Library.Word"
begin

section \<open>The image upload task of \<^verbatim>\<open>pkgs/trigger/src/trigger/example.ts\<close>\<close>

text \<open>
  The task reads or downloads an image, converts it to AVIF with sharp, uploads the
  result to a DigitalOcean Space and returns the CDN URL of the uploaded object.

  The function is a sequence of calls into the runtime and into third-party packages
  (\<^verbatim>\<open>process.env\<close>, \<^verbatim>\<open>fs.readFile\<close>, \<^verbatim>\<open>fetch\<close>, \<^verbatim>\<open>sharp\<close>, \<^verbatim>\<open>uuid\<close>, the S3 client).
  Those are not code of the repository: what each of them answers is a field of the
  record \<open>world\<close>, and every call the function makes is recorded, in order, in a list
  of events. A rejected promise or a thrown exception is the left injection of a sum.
\<close>

subsection \<open>Data model (lines 10-33)\<close>

type_synonym bytes = "8 word list"

text \<open>
  \<^verbatim>\<open>source\<close> is a union tagged by \<^verbatim>\<open>type\<close>. The payload is deserialised JSON, so at run
  time the tag can be a string that is neither \<^verbatim>\<open>'local'\<close> nor \<^verbatim>\<open>'remote'\<close>; the function
  has a branch for that (line 100), which \<open>Unknown\<close> reaches.
\<close>

datatype OptimizeImageSource =
    Local (file_path: string)
  | Remote (file_url: string)
  | Unknown (type_tag: string)

record OptimizeImageDestination =
  bucket_name :: string
  object_folder :: string
  object_slug :: string

record OptimizeImageInput =
  source :: OptimizeImageSource
  dest :: OptimizeImageDestination

record OptimizeImageOutput =
  optimized_img_url :: string

subsection \<open>Errors, the outside world and the events of a run\<close>

text \<open>A JavaScript \<^verbatim>\<open>Error\<close> object, identified by its message.\<close>

datatype js_error = Error (message: string)

text \<open>
  The \<^verbatim>\<open>Response\<close> of \<^verbatim>\<open>fetch\<close>: \<^verbatim>\<open>response.ok\<close> is, by the Fetch standard, true exactly for
  a status in the range 200 to 299; \<^verbatim>\<open>arrayBuffer()\<close> may itself reject.
\<close>

record response =
  status :: nat
  statusText :: string
  arrayBuffer :: "js_error + bytes"

definition response_ok :: "response \<Rightarrow> bool" where
  "response_ok r = (200 \<le> status r \<and> status r \<le> 299)"

text \<open>The argument of \<^verbatim>\<open>new S3Client(...)\<close> (lines 73-82).\<close>

record S3ClientConfig =
  region :: string
  endpoint :: string
  accessKeyId :: string
  secretAccessKey :: string
  forcePathStyle :: bool

text \<open>The \<^verbatim>\<open>params\<close> of the managed upload (lines 109-115).\<close>

record UploadParams =
  Bucket :: string
  Key :: string
  Body :: bytes
  ACL :: string
  ContentType :: string

record world =
  env_ACCESS_KEY :: "string option"
  env_SECRET_KEY :: "string option"
  uuidv4 :: string
  disk :: "string \<Rightarrow> js_error + bytes"
  http_get :: "string \<Rightarrow> js_error + response"
  sharp_avif_toBuffer :: "nat \<Rightarrow> bytes \<Rightarrow> js_error + bytes"
  upload_done :: "S3ClientConfig \<Rightarrow> UploadParams \<Rightarrow> js_error + unit"

text \<open>
  \<^item> \<open>env_ACCESS_KEY\<close>, \<open>env_SECRET_KEY\<close>: the two entries of \<^verbatim>\<open>process.env\<close>, \<open>None\<close> when
    the variable is undefined;
  \<^item> \<open>uuidv4\<close>: the identifier that the call \<^verbatim>\<open>uuidv4()\<close> of this run returns;
  \<^item> \<open>disk\<close>: what \<^verbatim>\<open>fs.readFile\<close> finds at a path, the bytes stored there or the error
    with which the read rejects (no such file, no permission, I/O fault);
  \<^item> \<open>http_get\<close>: the response to a GET of a URL, or the network error of \<^verbatim>\<open>fetch\<close>;
  \<^item> \<open>sharp_avif_toBuffer q b\<close>: the result of \<^verbatim>\<open>sharp(b).avif({quality: q}).toBuffer()\<close>;
  \<^item> \<open>upload_done\<close>: the outcome of \<^verbatim>\<open>new Upload({client, params, ...}).done()\<close>.
\<close>

datatype event =
    NewS3Client S3ClientConfig
  | ReadFile string
  | Fetch string
  | SharpAvif bytes nat
  | Upload S3ClientConfig UploadParams nat nat
  | ConsoleLog string
  | ConsoleError "string list"

type_synonym 'a io = "(js_error + 'a) \<times> event list"

text \<open>An event that touches the file system, the network, the transcoder or the bucket.\<close>

fun is_effect :: "event \<Rightarrow> bool" where
  "is_effect (ReadFile _) = True"
| "is_effect (Fetch _) = True"
| "is_effect (SharpAvif _ _) = True"
| "is_effect (Upload _ _ _ _) = True"
| "is_effect _ = False"

fun is_transcode :: "event \<Rightarrow> bool" where
  "is_transcode (SharpAvif _ _) = True"
| "is_transcode _ = False"

fun is_upload :: "event \<Rightarrow> bool" where
  "is_upload (Upload _ _ _ _) = True"
| "is_upload _ = False"

fun is_acquisition :: "event \<Rightarrow> bool" where
  "is_acquisition (ReadFile _) = True"
| "is_acquisition (Fetch _) = True"
| "is_acquisition _ = False"

fun is_console_error :: "event \<Rightarrow> bool" where
  "is_console_error (ConsoleError _) = True"
| "is_console_error _ = False"

fun is_console_log :: "event \<Rightarrow> bool" where
  "is_console_log (ConsoleLog _) = True"
| "is_console_log _ = False"

subsection \<open>\<^verbatim>\<open>path.posix.join\<close>\<close>

text \<open>
  Line 88 builds the object key with \<^verbatim>\<open>path.posix.join\<close> of Node's standard library,
  which is not part of the repository. It is modelled after Node's implementation:
  the non-empty arguments are joined with \<^verbatim>\<open>/\<close> and the result is normalised, that is,
  empty segments and \<^verbatim>\<open>.\<close> are dropped, \<^verbatim>\<open>..\<close> removes the segment before it (or is kept
  at the front of a relative path), and a trailing \<^verbatim>\<open>/\<close> is preserved.
\<close>

fun split_on :: "char \<Rightarrow> string \<Rightarrow> string list" where
  "split_on sep [] = [[]]"
| "split_on sep (c # cs) =
     (if c = sep then [] # split_on sep cs
      else (case split_on sep cs of
              [] \<Rightarrow> [[c]]
            | s # ss \<Rightarrow> (c # s) # ss))"

fun join_with :: "string \<Rightarrow> string list \<Rightarrow> string" where
  "join_with sep [] = []"
| "join_with sep [s] = s"
| "join_with sep (s # t # ss) = s @ sep @ join_with sep (t # ss)"

definition normalize_step :: "bool \<Rightarrow> string list \<Rightarrow> string \<Rightarrow> string list" where
  "normalize_step allowAboveRoot res seg =
     (if seg = [] \<or> seg = ''.'' then res
      else if seg = ''..'' then
        (if res \<noteq> [] \<and> last res \<noteq> ''..'' then butlast res
         else if allowAboveRoot then res @ [''..'']
         else res)
      else res @ [seg])"

definition normalizeString :: "string \<Rightarrow> bool \<Rightarrow> string" where
  "normalizeString path allowAboveRoot =
     join_with ''/'' (foldl (normalize_step allowAboveRoot) [] (split_on CHR ''/'' path))"

definition posix_normalize :: "string \<Rightarrow> string" where
  "posix_normalize path =
     (if path = [] then ''.''
      else
        let isAbsolute = (hd path = CHR ''/'');
            trailingSeparator = (last path = CHR ''/'');
            p = normalizeString path (\<not> isAbsolute)
        in if p = [] then
             (if isAbsolute then ''/'' else if trailingSeparator then ''./'' else ''.'')
           else
             let p' = (if trailingSeparator then p @ ''/'' else p)
             in if isAbsolute then ''/'' @ p' else p')"

definition posix_join :: "string list \<Rightarrow> string" where
  "posix_join args =
     (let joined = filter (\<lambda>arg. arg \<noteq> []) args
      in if joined = [] then ''.'' else posix_normalize (join_with ''/'' joined))"

subsection \<open>The functions of the source\<close>

text \<open>\<^verbatim>\<open>fs.readFile(path)\<close> (line 96): one read of the file system.\<close>

definition fs_readFile :: "world \<Rightarrow> string \<Rightarrow> bytes io" where
  "fs_readFile w path = (disk w path, [ReadFile path])"

text \<open>\<^verbatim>\<open>download_image\<close> (lines 42-49).\<close>

definition download_image :: "world \<Rightarrow> string \<Rightarrow> bytes io" where
  "download_image w url =
     (case http_get w url of
        Inl e \<Rightarrow> (Inl e, [Fetch url])
      | Inr response \<Rightarrow>
          if \<not> response_ok response then
            (Inl (Error (''Failed to download image from '' @ url @ '': ''
                         @ statusText response)), [Fetch url])
          else
            (case arrayBuffer response of
               Inl e \<Rightarrow> (Inl e, [Fetch url])
             | Inr buf \<Rightarrow> (Inr buf, [Fetch url])))"

text \<open>
  A value that \<^verbatim>\<open>!\<close> negates to true: for an entry of \<^verbatim>\<open>process.env\<close>, undefined or the
  empty string (line 68).
\<close>

definition falsy :: "string option \<Rightarrow> bool" where
  "falsy v = (v = None \<or> v = Some [])"

text \<open>Lines 84-88: the unique file name and the object key.\<close>

definition generate_object_key :: "OptimizeImageDestination \<Rightarrow> string \<Rightarrow> string" where
  "generate_object_key d uuid =
     (let fileExtension = ''avif'';
          fileNameBase = object_slug d @ ''-'' @ uuid;
          avifFileName = fileNameBase @ ''.'' @ fileExtension
      in posix_join [object_folder d, avifFileName])"

text \<open>Lines 94-102: the image bytes, from the file system or from the network.\<close>

definition acquire :: "world \<Rightarrow> OptimizeImageSource \<Rightarrow> bytes io" where
  "acquire w src =
     (case src of
        Local p \<Rightarrow> fs_readFile w p
      | Remote u \<Rightarrow> download_image w u
      | Unknown t \<Rightarrow> (Inl (Error ''Invalid input type''), []))"

text \<open>
  The name of the source in the success message (line 131): the path of a local source,
  otherwise \<^verbatim>\<open>file_url\<close>, which an object of unknown type does not have.
\<close>

definition source_name :: "OptimizeImageSource \<Rightarrow> string" where
  "source_name src =
     (case src of Local p \<Rightarrow> p | Remote u \<Rightarrow> u | Unknown t \<Rightarrow> ''undefined'')"

text \<open>Lines 109-115: the parameters of the upload.\<close>

definition uploadParams :: "OptimizeImageInput \<Rightarrow> string \<Rightarrow> bytes \<Rightarrow> UploadParams" where
  "uploadParams input objectKey avifBuffer =
     \<lparr>Bucket = bucket_name (dest input), Key = objectKey, Body = avifBuffer,
      ACL = ''public-read'', ContentType = ''image/avif''\<rparr>"

text \<open>The success message of line 131.\<close>

definition success_message :: "OptimizeImageInput \<Rightarrow> string \<Rightarrow> string" where
  "success_message input objectKey =
     ''File '' @ [CHR 0x27] @ source_name (source input) @ [CHR 0x27]
     @ '' uploaded successfully to '' @ [CHR 0x27]
     @ bucket_name (dest input) @ ''/'' @ objectKey @ [CHR 0x27] @ ''.''"

text \<open>Lines 91-136: the body of the \<^verbatim>\<open>try\<close> block.\<close>

definition try_block ::
  "world \<Rightarrow> OptimizeImageInput \<Rightarrow> S3ClientConfig \<Rightarrow> string \<Rightarrow> string \<Rightarrow> OptimizeImageOutput io"
where
  "try_block w input s3Client REGION objectKey =
     (case acquire w (source input) of
        (Inl e, t1) \<Rightarrow> (Inl e, t1)
      | (Inr imageBuffer, t1) \<Rightarrow>
          (case sharp_avif_toBuffer w 85 imageBuffer of
             Inl e \<Rightarrow> (Inl e, t1 @ [SharpAvif imageBuffer 85])
           | Inr avifBuffer \<Rightarrow>
               let params = uploadParams input objectKey avifBuffer;
                   t2 = t1 @ [SharpAvif imageBuffer 85,
                              Upload s3Client params 4 (5 * 1024 * 1024)]
               in (case upload_done w s3Client params of
                     Inl e \<Rightarrow> (Inl e, t2)
                   | Inr _ \<Rightarrow>
                       (Inr \<lparr>optimized_img_url =
                               ''https://'' @ bucket_name (dest input) @ ''.'' @ REGION
                               @ ''.cdn.digitaloceanspaces.com/'' @ objectKey\<rparr>,
                        t2 @ [ConsoleLog (success_message input objectKey)]))))"

text \<open>Lines 73-82: the configuration of the S3 client for DigitalOcean Spaces.\<close>

definition new_S3Client :: "string \<Rightarrow> string \<Rightarrow> string \<Rightarrow> string \<Rightarrow> S3ClientConfig" where
  "new_S3Client REGION ENDPOINT ACCESS_KEY SECRET_KEY =
     \<lparr>region = REGION, endpoint = ENDPOINT,
      accessKeyId = ACCESS_KEY, secretAccessKey = SECRET_KEY,
      forcePathStyle = True\<rparr>"

text \<open>The error thrown at line 69.\<close>

definition credentials_error :: js_error where
  "credentials_error =
     Error ''DigitalOcean Spaces credentials are not set in environment variables.''"

text \<open>\<^verbatim>\<open>upload_image_to_digital_ocean_spaces\<close> (lines 61-141).\<close>

definition upload_image_to_digital_ocean_spaces ::
  "world \<Rightarrow> OptimizeImageInput \<Rightarrow> OptimizeImageOutput io"
where
  "upload_image_to_digital_ocean_spaces w input =
     (let ACCESS_KEY = env_ACCESS_KEY w;
          SECRET_KEY = env_SECRET_KEY w;
          REGION = ''nyc3'';
          ENDPOINT = ''https://'' @ REGION @ ''.digitaloceanspaces.com''
      in if falsy ACCESS_KEY \<or> falsy SECRET_KEY then (Inl credentials_error, [])
         else
           let s3Client = new_S3Client REGION ENDPOINT (the ACCESS_KEY) (the SECRET_KEY);
               objectKey = generate_object_key (dest input) (uuidv4 w)
           in (case try_block w input s3Client REGION objectKey of
                 (Inl error, t) \<Rightarrow>
                   (Inl error, NewS3Client s3Client # t @ [ConsoleError [''Error:'', message error]])
               | (Inr out, t) \<Rightarrow> (Inr out, NewS3Client s3Client # t)))"

subsection \<open>Vocabulary of the properties\<close>

text \<open>
  A path-safe string: split at \<^verbatim>\<open>/\<close>, every segment is non-empty and is neither \<^verbatim>\<open>.\<close>
  nor \<^verbatim>\<open>..\<close>. So the string is not empty, has no leading, trailing or doubled \<^verbatim>\<open>/\<close>
  and no traversal segment.
\<close>

definition safe_segment :: "string \<Rightarrow> bool" where
  "safe_segment seg = (seg \<noteq> [] \<and> seg \<noteq> ''.'' \<and> seg \<noteq> ''..'')"

definition path_safe :: "string \<Rightarrow> bool" where
  "path_safe s = list_all safe_segment (split_on CHR ''/'' s)"

text \<open>
  The shape of the identifiers that \<^verbatim>\<open>uuidv4()\<close> of the \<^verbatim>\<open>uuid\<close> package returns: 36
  characters, lower-case hexadecimal digits in groups of 8, 4, 4, 4 and 12 separated by
  \<^verbatim>\<open>-\<close>, with the version digit 4 and a variant digit among 8, 9, a, b.
\<close>

definition uuid_char_ok :: "char \<Rightarrow> char \<Rightarrow> bool" where
  "uuid_char_ok p c =
     (if p = CHR ''x'' then c \<in> set ''0123456789abcdef''
      else if p = CHR ''y'' then c \<in> set ''89ab''
      else c = p)"

definition is_uuid_v4 :: "string \<Rightarrow> bool" where
  "is_uuid_v4 u = list_all2 uuid_char_ok ''xxxxxxxx-xxxx-4xxx-yxxx-xxxxxxxxxxxx'' u"

text \<open>The object keys of the uploads of a run, in order.\<close>

fun upload_keys :: "event list \<Rightarrow> string list" where
  "upload_keys [] = []"
| "upload_keys (Upload c p q s # evs) = Key p # upload_keys evs"
| "upload_keys (ev # evs) = upload_keys evs"

text \<open>The client that a run with credentials builds.\<close>

definition client_of :: "world \<Rightarrow> S3ClientConfig" where
  "client_of w =
     new_S3Client ''nyc3'' ''https://nyc3.digitaloceanspaces.com''
       (the (env_ACCESS_KEY w)) (the (env_SECRET_KEY w))"

subsection \<open>Sample worlds and requests\<close>

definition sample_uuid :: string where
  "sample_uuid = ''1b9d6bcd-bbfd-4b2d-9b5d-ab8dfbbd4bed''"

definition sample_world :: world where
  "sample_world =
     \<lparr>env_ACCESS_KEY = Some ''DO00ACCESS'',
      env_SECRET_KEY = Some ''s3cr3t'',
      uuidv4 = sample_uuid,
      disk = (\<lambda>p. if p = ''/tmp/a.png'' then Inr [0x89, 0x50, 0x4E, 0x47]
                   else if p = ''/tmp/notes.txt'' then Inr [0x68, 0x69]
                   else Inl (Error ''ENOENT: no such file or directory'')),
      http_get = (\<lambda>u. if u = ''https://example.com/a.jpg''
                         then Inr \<lparr>status = 200, statusText = ''OK'',
                                   arrayBuffer = Inr [0xFF, 0xD8, 0xFF]\<rparr>
                       else if u = ''https://example.com/gone.png''
                         then Inr \<lparr>status = 404, statusText = ''Not Found'',
                                   arrayBuffer = Inr []\<rparr>
                       else Inl (Error ''fetch failed'')),
      sharp_avif_toBuffer = (\<lambda>q b. if b = [0x68, 0x69]
                                      then Inl (Error ''Input buffer contains unsupported image format'')
                                    else Inr (0 # 0 # 0 # b)),
      upload_done = (\<lambda>c p. if Bucket p = ''assets'' then Inr ()
                            else Inl (Error ''NoSuchBucket''))\<rparr>"


definition sample_dest :: OptimizeImageDestination where
  "sample_dest = \<lparr>bucket_name = ''assets'', object_folder = ''img'', object_slug = ''hero''\<rparr>"

definition local_request :: OptimizeImageInput where
  "local_request = \<lparr>source = Local ''/tmp/a.png'', dest = sample_dest\<rparr>"

definition missing_file_request :: OptimizeImageInput where
  "missing_file_request = \<lparr>source = Local ''/tmp/none.png'', dest = sample_dest\<rparr>"

definition remote_404_request :: OptimizeImageInput where
  "remote_404_request = \<lparr>source = Remote ''https://example.com/gone.png'', dest = sample_dest\<rparr>"

definition remote_request :: OptimizeImageInput where
  "remote_request = \<lparr>source = Remote ''https://example.com/a.jpg'', dest = sample_dest\<rparr>"


definition unknown_request :: OptimizeImageInput where
  "unknown_request = \<lparr>source = Unknown ''s3'', dest = sample_dest\<rparr>"

section \<open>Properties\<close>

lemma falsy_simps [simp]:
  "falsy None" "falsy (Some [])" "s \<noteq> [] \<Longrightarrow> \<not> falsy (Some s)"
  by (simp_all add: falsy_def)

subsection \<open>The object key\<close>

lemma split_on_nonempty [simp]: "split_on sep s \<noteq> []"
  by (induction s) (auto split: list.splits)

lemma join_split: "join_with [sep] (split_on sep s) = s"
proof (induction s)
  case Nil
  show ?case by simp
next
  case (Cons c cs)
  obtain x xs where sp: "split_on sep cs = x # xs"
    by (cases "split_on sep cs") simp_all
  show ?case
  proof (cases "c = sep")
    case True
    with Cons sp show ?thesis by simp
  next
    case False
    with Cons sp show ?thesis by (cases xs) auto
  qed
qed

lemma split_on_append_sep:
  "split_on sep (a @ sep # b) = split_on sep a @ split_on sep b"
proof (induction a)
  case Nil
  show ?case by simp
next
  case (Cons c cs)
  then show ?case
    by (cases "split_on sep cs") auto
qed

lemma split_on_no_sep: "sep \<notin> set t \<Longrightarrow> split_on sep t = [t]"
  by (induction t) auto

lemma split_on_append_no_sep:
  "sep \<notin> set t \<Longrightarrow>
   split_on sep (s @ t) = butlast (split_on sep s) @ [last (split_on sep s) @ t]"
proof (induction s)
  case Nil
  then show ?case by (simp add: split_on_no_sep)
next
  case (Cons c cs)
  then show ?case
    by (cases "split_on sep cs") (auto split: list.splits)
qed

lemma normalize_safe_segments:
  "list_all safe_segment segs \<Longrightarrow>
   foldl (normalize_step a) res segs = res @ segs"
  by (induction segs arbitrary: res) (auto simp: normalize_step_def safe_segment_def)

lemma path_safe_shape:
  assumes "path_safe s"
  shows "s \<noteq> []" "hd s \<noteq> CHR ''/''" "last s \<noteq> CHR ''/''"
proof -
  show ne: "s \<noteq> []"
    using assms by (auto simp: path_safe_def safe_segment_def)
  show "hd s \<noteq> CHR ''/''"
    using assms ne by (cases s) (auto simp: path_safe_def safe_segment_def)
  show "last s \<noteq> CHR ''/''"
  proof
    assume "last s = CHR ''/''"
    with ne have "s = butlast s @ CHR ''/'' # []"
      by (metis append_butlast_last_id)
    then have "split_on CHR ''/'' s = split_on CHR ''/'' (butlast s) @ [[]]"
      by (metis split_on_append_sep split_on.simps(1))
    with assms show False
      by (simp add: path_safe_def safe_segment_def)
  qed
qed

lemma posix_normalize_path_safe:
  assumes "path_safe s"
  shows "posix_normalize s = s"
proof -
  have "normalizeString s True = s"
    using assms join_split [of "CHR ''/''" s]
    by (simp add: normalizeString_def path_safe_def normalize_safe_segments)
  with path_safe_shape [OF assms] show ?thesis
    by (simp add: posix_normalize_def Let_def)
qed

lemma path_safe_join:
  assumes "path_safe a" "path_safe b"
  shows "path_safe (a @ CHR ''/'' # b)"
  using assms by (simp add: path_safe_def split_on_append_sep)

lemma path_safe_suffix:
  assumes "path_safe s" "CHR ''/'' \<notin> set t" "2 < length t"
  shows "path_safe (s @ t)"
proof -
  let ?segs = "split_on CHR ''/'' s"
  have "list_all safe_segment (butlast ?segs)"
    using assms(1) by (auto simp: path_safe_def list_all_iff dest: in_set_butlastD)
  moreover have "safe_segment x" if "2 < length x" for x :: string
    using that by (auto simp: safe_segment_def)
  then have "safe_segment (last ?segs @ t)"
    using assms(3) by simp
  ultimately show ?thesis
    using assms(2) by (simp add: path_safe_def split_on_append_no_sep)
qed

lemma list_all2_set2:
  "list_all2 P xs ys \<Longrightarrow> y \<in> set ys \<Longrightarrow> \<exists>x\<in>set xs. P x y"
  by (induction rule: list_all2_induct) auto

lemma uuid_no_slash:
  assumes "is_uuid_v4 u"
  shows "CHR ''/'' \<notin> set u"
proof
  assume "CHR ''/'' \<in> set u"
  with assms obtain p
    where "p \<in> set ''xxxxxxxx-xxxx-4xxx-yxxx-xxxxxxxxxxxx''" "uuid_char_ok p CHR ''/''"
    unfolding is_uuid_v4_def by (blast dest: list_all2_set2)
  then show False
    by (auto simp: uuid_char_ok_def split: if_splits)
qed

lemma uuid_length: "is_uuid_v4 u \<Longrightarrow> length u = 36"
  by (auto simp: is_uuid_v4_def dest: list_all2_lengthD)

lemma posix_join_safe:
  assumes "path_safe a" "path_safe b"
  shows "posix_join [a, b] = a @ ''/'' @ b"
  using assms path_safe_shape(1) [OF assms(1)] path_safe_shape(1) [OF assms(2)]
        posix_normalize_path_safe [OF path_safe_join [OF assms]]
  by (simp add: posix_join_def)

text \<open>
  C4. When the folder and the slug are path-safe and the identifier has the shape of a
  version 4 UUID, the object key is \<^verbatim>\<open>folder/slug-<uuid>.avif\<close>; hence a run with the same
  destination and a different identifier has a different key.
\<close>

theorem object_key_shape:
  assumes "path_safe (object_folder d)" "path_safe (object_slug d)" "is_uuid_v4 uuid"
  shows "generate_object_key d uuid
           = object_folder d @ ''/'' @ object_slug d @ ''-'' @ uuid @ ''.avif''
         \<and> (\<forall>uuid'. is_uuid_v4 uuid' \<and> uuid' \<noteq> uuid \<longrightarrow>
               generate_object_key d uuid' \<noteq> generate_object_key d uuid)"
proof -
  have key: "generate_object_key d v
               = object_folder d @ ''/'' @ object_slug d @ ''-'' @ v @ ''.avif''"
    if v: "is_uuid_v4 v" for v
  proof -
    have "CHR ''/'' \<notin> set (''-'' @ v @ ''.avif'')"
      using uuid_no_slash [OF v] by simp
    moreover have "2 < length (''-'' @ v @ ''.avif'')"
      by simp
    ultimately have "path_safe (object_slug d @ ''-'' @ v @ ''.avif'')"
      using assms(2) by (rule path_safe_suffix [rotated])
    from posix_join_safe [OF assms(1) this] show ?thesis
      by (simp add: generate_object_key_def)
  qed
  show ?thesis
    using key [OF assms(3)] key by simp
qed


theorem object_key_shape_witness:
  "path_safe (object_folder sample_dest) \<and> path_safe (object_slug sample_dest)
   \<and> is_uuid_v4 sample_uuid
   \<and> generate_object_key sample_dest sample_uuid
       = ''img/hero-1b9d6bcd-bbfd-4b2d-9b5d-ab8dfbbd4bed.avif''
   \<and> generate_object_key sample_dest ''6ec0bd7f-11c0-43da-975e-2a8ad9ebae0b''
       \<noteq> generate_object_key sample_dest sample_uuid"
proof -
  have a: "path_safe (object_folder sample_dest)" "path_safe (object_slug sample_dest)"
    by (simp_all add: sample_dest_def path_safe_def safe_segment_def)
  have b: "is_uuid_v4 sample_uuid" "is_uuid_v4 ''6ec0bd7f-11c0-43da-975e-2a8ad9ebae0b''"
    by (simp_all add: sample_uuid_def is_uuid_v4_def uuid_char_ok_def)
  note shape = object_key_shape [OF a b(1)]
  from shape have k: "generate_object_key sample_dest sample_uuid
                        = ''img/hero-1b9d6bcd-bbfd-4b2d-9b5d-ab8dfbbd4bed.avif''"
    by (simp add: sample_dest_def sample_uuid_def)
  from shape [THEN conjunct2, THEN spec, of "''6ec0bd7f-11c0-43da-975e-2a8ad9ebae0b''"] b(2)
  have d: "generate_object_key sample_dest ''6ec0bd7f-11c0-43da-975e-2a8ad9ebae0b''
             \<noteq> generate_object_key sample_dest sample_uuid"
    by (simp add: sample_uuid_def)
  from a b(1) k d show ?thesis by simp
qed

text \<open>
  Outside the path-safe strings \<^verbatim>\<open>path.posix.join\<close> changes the key: an empty folder leaves no
  \<^verbatim>\<open>/\<close> in front of the file name, and a \<^verbatim>\<open>..\<close> in the folder removes the segment before it.
\<close>

lemma object_key_empty_folder:
  "generate_object_key
     \<lparr>bucket_name = ''assets'', object_folder = [], object_slug = ''hero''\<rparr> sample_uuid
     = ''hero-1b9d6bcd-bbfd-4b2d-9b5d-ab8dfbbd4bed.avif''"
  by (simp add: generate_object_key_def sample_uuid_def posix_join_def
        posix_normalize_def normalizeString_def normalize_step_def Let_def)

lemma object_key_dot_dot_folder:
  "generate_object_key
     \<lparr>bucket_name = ''assets'', object_folder = ''img/../private'', object_slug = ''hero''\<rparr>
     sample_uuid
     = ''private/hero-1b9d6bcd-bbfd-4b2d-9b5d-ab8dfbbd4bed.avif''"
  by (simp add: generate_object_key_def sample_uuid_def posix_join_def
        posix_normalize_def normalizeString_def normalize_step_def Let_def)

subsection \<open>The steps of a run\<close>

lemma run_with_credentials:
  assumes "\<not> falsy (env_ACCESS_KEY w)" "\<not> falsy (env_SECRET_KEY w)"
  shows "upload_image_to_digital_ocean_spaces w input =
           (case try_block w input (client_of w) ''nyc3''
                   (generate_object_key (dest input) (uuidv4 w)) of
              (Inl error, t) \<Rightarrow>
                (Inl error,
                 NewS3Client (client_of w) # t @ [ConsoleError [''Error:'', message error]])
            | (Inr out, t) \<Rightarrow> (Inr out, NewS3Client (client_of w) # t))"
  using assms
  by (simp add: upload_image_to_digital_ocean_spaces_def client_of_def Let_def
           split: prod.splits sum.splits)

lemma run_without_credentials:
  assumes "falsy (env_ACCESS_KEY w) \<or> falsy (env_SECRET_KEY w)"
  shows "upload_image_to_digital_ocean_spaces w input = (Inl credentials_error, [])"
  using assms by (simp add: upload_image_to_digital_ocean_spaces_def Let_def)

lemma acquire_events:
  "filter is_transcode (snd (acquire w src)) = []"
  "filter is_upload (snd (acquire w src)) = []"
  "filter is_console_error (snd (acquire w src)) = []"
  "filter is_console_log (snd (acquire w src)) = []"
  "upload_keys (snd (acquire w src)) = []"
  by (auto simp: acquire_def fs_readFile_def download_image_def
           split: OptimizeImageSource.splits sum.splits)

lemma try_block_acquire_fails:
  "acquire w (source input) = (Inl e, t1) \<Longrightarrow> try_block w input c r k = (Inl e, t1)"
  by (simp add: try_block_def)

lemma try_block_sharp_fails:
  "acquire w (source input) = (Inr b, t1) \<Longrightarrow> sharp_avif_toBuffer w 85 b = Inl e \<Longrightarrow>
   try_block w input c r k = (Inl e, t1 @ [SharpAvif b 85])"
  by (simp add: try_block_def)

lemma try_block_upload_fails:
  "acquire w (source input) = (Inr b, t1) \<Longrightarrow> sharp_avif_toBuffer w 85 b = Inr a \<Longrightarrow>
   upload_done w c (uploadParams input k a) = Inl e \<Longrightarrow>
   try_block w input c r k =
     (Inl e, t1 @ [SharpAvif b 85, Upload c (uploadParams input k a) 4 5242880])"
  by (simp add: try_block_def)

lemma try_block_success:
  "acquire w (source input) = (Inr b, t1) \<Longrightarrow> sharp_avif_toBuffer w 85 b = Inr a \<Longrightarrow>
   upload_done w c (uploadParams input k a) = Inr u \<Longrightarrow>
   try_block w input c r k =
     (Inr \<lparr>optimized_img_url = ''https://'' @ bucket_name (dest input) @ ''.'' @ r
                               @ ''.cdn.digitaloceanspaces.com/'' @ k\<rparr>,
      t1 @ [SharpAvif b 85, Upload c (uploadParams input k a) 4 5242880,
            ConsoleLog (success_message input k)])"
  by (simp add: try_block_def)

lemma try_block_Inr:
  assumes "try_block w input c r k = (Inr out, t)"
  shows "\<exists>b t1 a. acquire w (source input) = (Inr b, t1)
           \<and> sharp_avif_toBuffer w 85 b = Inr a
           \<and> upload_done w c (uploadParams input k a) = Inr ()
           \<and> out = \<lparr>optimized_img_url = ''https://'' @ bucket_name (dest input) @ ''.'' @ r
                               @ ''.cdn.digitaloceanspaces.com/'' @ k\<rparr>
           \<and> t = t1 @ [SharpAvif b 85, Upload c (uploadParams input k a) 4 5242880,
                       ConsoleLog (success_message input k)]"
  using assms
  by (auto simp: try_block_def Let_def split: prod.splits sum.splits)

lemma try_block_Inl:
  assumes "try_block w input c r k = (Inl e, t)"
  shows "filter is_console_log t = []"
  using assms acquire_events(4) [of w "source input"]
  by (auto simp: try_block_def Let_def split: prod.splits sum.splits)

lemma run_Inr:
  assumes "upload_image_to_digital_ocean_spaces w input = (Inr out, t)"
  shows "\<exists>b t1 a.
           \<not> falsy (env_ACCESS_KEY w) \<and> \<not> falsy (env_SECRET_KEY w)
           \<and> acquire w (source input) = (Inr b, t1)
           \<and> sharp_avif_toBuffer w 85 b = Inr a
           \<and> upload_done w (client_of w)
                 (uploadParams input (generate_object_key (dest input) (uuidv4 w)) a) = Inr ()
           \<and> out = \<lparr>optimized_img_url =
                      ''https://'' @ bucket_name (dest input) @ ''.nyc3.cdn.digitaloceanspaces.com/''
                      @ generate_object_key (dest input) (uuidv4 w)\<rparr>
           \<and> t = NewS3Client (client_of w) # t1 @
                   [SharpAvif b 85,
                    Upload (client_of w)
                      (uploadParams input (generate_object_key (dest input) (uuidv4 w)) a)
                      4 5242880,
                    ConsoleLog (success_message input
                                  (generate_object_key (dest input) (uuidv4 w)))]"
proof -
  have creds: "\<not> falsy (env_ACCESS_KEY w)" "\<not> falsy (env_SECRET_KEY w)"
    using assms run_without_credentials [of w input] by auto
  let ?k = "generate_object_key (dest input) (uuidv4 w)"
  obtain r t0 where tb: "try_block w input (client_of w) ''nyc3'' ?k = (r, t0)"
    by (cases "try_block w input (client_of w) ''nyc3'' ?k")
  with assms creds have r: "r = Inr out" and t: "t = NewS3Client (client_of w) # t0"
    by (auto simp: run_with_credentials split: sum.splits)
  from try_block_Inr [OF tb [unfolded r]] creds t show ?thesis
    by auto
qed

lemma download_image_not_ok:
  assumes "http_get w url = Inr resp" "\<not> response_ok resp"
  shows "download_image w url =
           (Inl (Error (''Failed to download image from '' @ url @ '': '' @ statusText resp)),
            [Fetch url])"
  using assms by (simp add: download_image_def)

lemma run_acquire_fails:
  assumes "\<not> falsy (env_ACCESS_KEY w)" "\<not> falsy (env_SECRET_KEY w)"
    and "acquire w (source input) = (Inl e, t1)"
  shows "upload_image_to_digital_ocean_spaces w input =
           (Inl e, NewS3Client (client_of w) # t1 @ [ConsoleError [''Error:'', message e]])"
  by (simp add: run_with_credentials [OF assms(1,2)] try_block_acquire_fails [OF assms(3)])

lemma upload_keys_append: "upload_keys (xs @ ys) = upload_keys xs @ upload_keys ys"
  by (induction xs rule: upload_keys.induct) simp_all

lemma run_Inl:
  "upload_image_to_digital_ocean_spaces w input = (Inl e, t) \<longleftrightarrow>
     (falsy (env_ACCESS_KEY w) \<or> falsy (env_SECRET_KEY w)) \<and> e = credentials_error \<and> t = []
     \<or> \<not> falsy (env_ACCESS_KEY w) \<and> \<not> falsy (env_SECRET_KEY w)
       \<and> (\<exists>t0. try_block w input (client_of w) ''nyc3''
                   (generate_object_key (dest input) (uuidv4 w)) = (Inl e, t0)
                \<and> t = NewS3Client (client_of w) # t0 @ [ConsoleError [''Error:'', message e]])"
proof (cases "falsy (env_ACCESS_KEY w) \<or> falsy (env_SECRET_KEY w)")
  case True
  then show ?thesis
    by (auto simp: run_without_credentials)
next
  case False
  then have creds: "\<not> falsy (env_ACCESS_KEY w)" "\<not> falsy (env_SECRET_KEY w)"
    by simp_all
  obtain r t0 where tb: "try_block w input (client_of w) ''nyc3''
                           (generate_object_key (dest input) (uuidv4 w)) = (r, t0)"
    by (cases "try_block w input (client_of w) ''nyc3''
                 (generate_object_key (dest input) (uuidv4 w))")
  show ?thesis
    using creds by (cases r) (auto simp: run_with_credentials [OF creds] tb)
qed

lemma acquire_Inr:
  "acquire w src = (Inr b, t1) \<longleftrightarrow>
     (\<exists>p. src = Local p \<and> disk w p = Inr b \<and> t1 = [ReadFile p])
     \<or> (\<exists>u resp. src = Remote u \<and> http_get w u = Inr resp \<and> response_ok resp
           \<and> arrayBuffer resp = Inr b \<and> t1 = [Fetch u])"
  by (cases src)
     (auto simp: acquire_def fs_readFile_def download_image_def split: sum.splits)



lemma try_block_Inr_iff:
  "try_block w input c r k = (Inr out, t0) \<longleftrightarrow>
     (\<exists>b t1 a. acquire w (source input) = (Inr b, t1)
        \<and> sharp_avif_toBuffer w 85 b = Inr a
        \<and> upload_done w c (uploadParams input k a) = Inr ()
        \<and> out = \<lparr>optimized_img_url = ''https://'' @ bucket_name (dest input) @ ''.'' @ r
                               @ ''.cdn.digitaloceanspaces.com/'' @ k\<rparr>
        \<and> t0 = t1 @ [SharpAvif b 85, Upload c (uploadParams input k a) 4 5242880,
                       ConsoleLog (success_message input k)])"
  by (auto simp: try_block_def Let_def split: prod.splits sum.splits)

lemma run_Inr_iff:
  "upload_image_to_digital_ocean_spaces w input = (Inr out, t) \<longleftrightarrow>
     \<not> falsy (env_ACCESS_KEY w) \<and> \<not> falsy (env_SECRET_KEY w)
     \<and> (\<exists>t0. try_block w input (client_of w) ''nyc3''
                 (generate_object_key (dest input) (uuidv4 w)) = (Inr out, t0)
              \<and> t = NewS3Client (client_of w) # t0)"
proof (cases "falsy (env_ACCESS_KEY w) \<or> falsy (env_SECRET_KEY w)")
  case True
  then show ?thesis
    by (auto simp: run_without_credentials)
next
  case False
  then have creds: "\<not> falsy (env_ACCESS_KEY w)" "\<not> falsy (env_SECRET_KEY w)"
    by simp_all
  obtain r t0 where tb: "try_block w input (client_of w) ''nyc3''
                           (generate_object_key (dest input) (uuidv4 w)) = (r, t0)"
    by (cases "try_block w input (client_of w) ''nyc3''
                 (generate_object_key (dest input) (uuidv4 w))")
  show ?thesis
    using creds by (cases r) (auto simp: run_with_credentials [OF creds] tb)
qed

lemma run_succeeds_iff:
  "(\<exists>out t. upload_image_to_digital_ocean_spaces w input = (Inr out, t)) \<longleftrightarrow>
     \<not> falsy (env_ACCESS_KEY w) \<and> \<not> falsy (env_SECRET_KEY w)
     \<and> (\<exists>b t1 a. acquire w (source input) = (Inr b, t1)
           \<and> sharp_avif_toBuffer w 85 b = Inr a
           \<and> upload_done w (client_of w)
                 (uploadParams input (generate_object_key (dest input) (uuidv4 w)) a) = Inr ())"
  by (auto simp: run_Inr_iff try_block_Inr_iff)

lemma run_fails_no_success_message:
  assumes "upload_image_to_digital_ocean_spaces w input = (Inl e, t)"
  shows "filter is_console_log t = []"
  using assms [unfolded run_Inl] by (auto dest: try_block_Inl)

subsection \<open>Runs in the sample world\<close>

lemma sample_key:
  "generate_object_key sample_dest sample_uuid
     = ''img/hero-1b9d6bcd-bbfd-4b2d-9b5d-ab8dfbbd4bed.avif''"
  by (simp add: generate_object_key_def sample_dest_def sample_uuid_def posix_join_def
        posix_normalize_def normalizeString_def normalize_step_def Let_def)

lemma sample_credentials:
  "\<not> falsy (env_ACCESS_KEY sample_world)" "\<not> falsy (env_SECRET_KEY sample_world)"
  by (simp_all add: sample_world_def)

lemma sample_world_fields:
  "uuidv4 sample_world = sample_uuid"
  "disk sample_world ''/tmp/a.png'' = Inr [0x89, 0x50, 0x4E, 0x47]"
  "disk sample_world ''/tmp/none.png'' = Inl (Error ''ENOENT: no such file or directory'')"
  "disk sample_world ''/tmp/notes.txt'' = Inr [0x68, 0x69]"
  "http_get sample_world ''https://example.com/gone.png''
     = Inr \<lparr>status = 404, statusText = ''Not Found'', arrayBuffer = Inr []\<rparr>"
  "http_get sample_world ''https://example.com/a.jpg''
     = Inr \<lparr>status = 200, statusText = ''OK'', arrayBuffer = Inr [0xFF, 0xD8, 0xFF]\<rparr>"
  by (simp_all add: sample_world_def)

lemma sample_local_run:
  "upload_image_to_digital_ocean_spaces sample_world local_request =
     (Inr \<lparr>optimized_img_url =
            ''https://assets.nyc3.cdn.digitaloceanspaces.com/img/hero-1b9d6bcd-bbfd-4b2d-9b5d-ab8dfbbd4bed.avif''\<rparr>,
      [NewS3Client (client_of sample_world),
       ReadFile ''/tmp/a.png'',
       SharpAvif [0x89, 0x50, 0x4E, 0x47] 85,
       Upload (client_of sample_world)
         \<lparr>Bucket = ''assets'',
          Key = ''img/hero-1b9d6bcd-bbfd-4b2d-9b5d-ab8dfbbd4bed.avif'',
          Body = [0, 0, 0, 0x89, 0x50, 0x4E, 0x47],
          ACL = ''public-read'', ContentType = ''image/avif''\<rparr> 4 5242880,
       ConsoleLog (success_message local_request
                     ''img/hero-1b9d6bcd-bbfd-4b2d-9b5d-ab8dfbbd4bed.avif'')])"
proof -
  have acq: "acquire sample_world (source local_request)
               = (Inr [0x89, 0x50, 0x4E, 0x47], [ReadFile ''/tmp/a.png''])"
    by (simp add: acquire_def fs_readFile_def local_request_def sample_world_fields)
  have sh: "sharp_avif_toBuffer sample_world 85 [0x89, 0x50, 0x4E, 0x47]
              = Inr [0, 0, 0, 0x89, 0x50, 0x4E, 0x47]"
    by (simp add: sample_world_def)
  have up: "upload_done sample_world c (uploadParams local_request k a) = Inr ()" for c k a
    by (simp add: sample_world_def uploadParams_def local_request_def sample_dest_def)
  have k: "generate_object_key (dest local_request) (uuidv4 sample_world)
             = ''img/hero-1b9d6bcd-bbfd-4b2d-9b5d-ab8dfbbd4bed.avif''"
    by (simp add: local_request_def sample_world_fields sample_key)
  show ?thesis
    by (simp add: run_with_credentials [OF sample_credentials] k
          try_block_success [OF acq sh up])
       (simp add: uploadParams_def local_request_def sample_dest_def)
qed

lemma sample_remote_run:
  "upload_image_to_digital_ocean_spaces sample_world remote_request =
     (Inr \<lparr>optimized_img_url =
            ''https://assets.nyc3.cdn.digitaloceanspaces.com/img/hero-1b9d6bcd-bbfd-4b2d-9b5d-ab8dfbbd4bed.avif''\<rparr>,
      [NewS3Client (client_of sample_world),
       Fetch ''https://example.com/a.jpg'',
       SharpAvif [0xFF, 0xD8, 0xFF] 85,
       Upload (client_of sample_world)
         \<lparr>Bucket = ''assets'',
          Key = ''img/hero-1b9d6bcd-bbfd-4b2d-9b5d-ab8dfbbd4bed.avif'',
          Body = [0, 0, 0, 0xFF, 0xD8, 0xFF],
          ACL = ''public-read'', ContentType = ''image/avif''\<rparr> 4 5242880,
       ConsoleLog (success_message remote_request
                     ''img/hero-1b9d6bcd-bbfd-4b2d-9b5d-ab8dfbbd4bed.avif'')])"
proof -
  have acq: "acquire sample_world (source remote_request)
               = (Inr [0xFF, 0xD8, 0xFF], [Fetch ''https://example.com/a.jpg''])"
    by (simp add: acquire_def download_image_def remote_request_def sample_world_fields
          response_ok_def)
  have sh: "sharp_avif_toBuffer sample_world 85 [0xFF, 0xD8, 0xFF]
              = Inr [0, 0, 0, 0xFF, 0xD8, 0xFF]"
    by (simp add: sample_world_def)
  have up: "upload_done sample_world c (uploadParams remote_request k a) = Inr ()" for c k a
    by (simp add: sample_world_def uploadParams_def remote_request_def sample_dest_def)
  have k: "generate_object_key (dest remote_request) (uuidv4 sample_world)
             = ''img/hero-1b9d6bcd-bbfd-4b2d-9b5d-ab8dfbbd4bed.avif''"
    by (simp add: remote_request_def sample_world_fields sample_key)
  show ?thesis
    by (simp add: run_with_credentials [OF sample_credentials] k
          try_block_success [OF acq sh up])
       (simp add: uploadParams_def remote_request_def sample_dest_def)
qed

subsection \<open>Credentials\<close>

text \<open>
  C1. If the access key or the secret key is undefined or empty, the function fails with
  the credentials error and the run has no event at all: no client is built, no file is
  read, nothing is fetched, transcoded or uploaded, whatever the input.
\<close>

theorem missing_credentials_fail_first:
  assumes "falsy (env_ACCESS_KEY w) \<or> falsy (env_SECRET_KEY w)"
  shows "upload_image_to_digital_ocean_spaces w input = (Inl credentials_error, [])"
  using assms by (simp add: upload_image_to_digital_ocean_spaces_def Let_def)

theorem missing_credentials_fail_first_witness:
  "(falsy (env_ACCESS_KEY (sample_world\<lparr>env_SECRET_KEY := Some []\<rparr>))
    \<or> falsy (env_SECRET_KEY (sample_world\<lparr>env_SECRET_KEY := Some []\<rparr>)))
   \<and> upload_image_to_digital_ocean_spaces (sample_world\<lparr>env_SECRET_KEY := Some []\<rparr>)
         remote_request = (Inl credentials_error, [])"
  using missing_credentials_fail_first
          [of "sample_world\<lparr>env_SECRET_KEY := Some []\<rparr>" remote_request]
  by (simp add: sample_world_def)

subsection \<open>The result URL\<close>

text \<open>
  C5. On success the URL is \<^verbatim>\<open>https://<bucket>.nyc3.cdn.digitaloceanspaces.com/<key>\<close>, where
  the bucket is \<^verbatim>\<open>dest.bucket_name\<close> and the key is the \<^verbatim>\<open>Key\<close> of the parameters of the only
  upload of the run, whose \<^verbatim>\<open>Bucket\<close> is the same bucket.
\<close>

theorem url_matches_upload:
  assumes "upload_image_to_digital_ocean_spaces w input = (Inr out, t)"
  shows "\<exists>c p q s.
           filter is_upload t = [Upload c p q s]
           \<and> Bucket p = bucket_name (dest input)
           \<and> optimized_img_url out =
               ''https://'' @ bucket_name (dest input) @ ''.'' @ ''nyc3'' @ ''.cdn.''
               @ ''digitaloceanspaces.com'' @ ''/'' @ Key p"
proof -
  from run_Inr [OF assms] obtain b t1 a where
    acq: "acquire w (source input) = (Inr b, t1)" and
    out: "out = \<lparr>optimized_img_url =
                   ''https://'' @ bucket_name (dest input) @ ''.nyc3.cdn.digitaloceanspaces.com/''
                   @ generate_object_key (dest input) (uuidv4 w)\<rparr>" and
    t: "t = NewS3Client (client_of w) # t1 @
              [SharpAvif b 85,
               Upload (client_of w)
                 (uploadParams input (generate_object_key (dest input) (uuidv4 w)) a)
                 4 5242880,
               ConsoleLog (success_message input
                             (generate_object_key (dest input) (uuidv4 w)))]"
    by blast
  from acquire_events(2) [of w "source input"] acq have "filter is_upload t1 = []"
    by simp
  with t out show ?thesis
    by (simp add: uploadParams_def)
qed

theorem url_matches_upload_witness:
  "fst (upload_image_to_digital_ocean_spaces sample_world local_request) =
     Inr \<lparr>optimized_img_url =
           ''https://assets.nyc3.cdn.digitaloceanspaces.com/img/hero-1b9d6bcd-bbfd-4b2d-9b5d-ab8dfbbd4bed.avif''\<rparr>
   \<and> (\<exists>c p q s.
         filter is_upload (snd (upload_image_to_digital_ocean_spaces sample_world local_request))
           = [Upload c p q s]
         \<and> Bucket p = ''assets''
         \<and> Key p = ''img/hero-1b9d6bcd-bbfd-4b2d-9b5d-ab8dfbbd4bed.avif'')"
  using url_matches_upload [OF sample_local_run] sample_local_run
  by simp

subsection \<open>Acquisition\<close>

text \<open>
  C8. For a local source the acquisition is one read of the file: where the file is
  readable it yields exactly the bytes on disk, and these are the bytes handed to the
  transcoder; where the read fails, the acquisition fails with the error of the read,
  which is the error of the run, and nothing is transcoded or uploaded.
\<close>

theorem local_acquisition:
  assumes "source input = Local p"
  shows "(\<forall>b. disk w p = Inr b \<longrightarrow>
            acquire w (source input) = (Inr b, [ReadFile p])
            \<and> (\<not> falsy (env_ACCESS_KEY w) \<and> \<not> falsy (env_SECRET_KEY w) \<longrightarrow>
                 take 3 (snd (upload_image_to_digital_ocean_spaces w input))
                   = [NewS3Client (client_of w), ReadFile p, SharpAvif b 85]))
         \<and> (\<forall>e. disk w p = Inl e \<longrightarrow>
              acquire w (source input) = (Inl e, [ReadFile p])
              \<and> (\<not> falsy (env_ACCESS_KEY w) \<and> \<not> falsy (env_SECRET_KEY w) \<longrightarrow>
                   upload_image_to_digital_ocean_spaces w input =
                     (Inl e, [NewS3Client (client_of w), ReadFile p,
                              ConsoleError [''Error:'', message e]])))"
proof (intro conjI allI impI)
  fix b assume "disk w p = Inr b"
  then show acq: "acquire w (source input) = (Inr b, [ReadFile p])"
    using assms by (simp add: acquire_def fs_readFile_def)
  assume "\<not> falsy (env_ACCESS_KEY w) \<and> \<not> falsy (env_SECRET_KEY w)"
  then have creds: "\<not> falsy (env_ACCESS_KEY w)" "\<not> falsy (env_SECRET_KEY w)"
    by simp_all
  show "take 3 (snd (upload_image_to_digital_ocean_spaces w input))
          = [NewS3Client (client_of w), ReadFile p, SharpAvif b 85]"
    using acq
    by (simp add: run_with_credentials [OF creds] try_block_def Let_def
             split: sum.splits)
next
  fix e assume "disk w p = Inl e"
  then show acq: "acquire w (source input) = (Inl e, [ReadFile p])"
    using assms by (simp add: acquire_def fs_readFile_def)
  assume "\<not> falsy (env_ACCESS_KEY w) \<and> \<not> falsy (env_SECRET_KEY w)"
  then have creds: "\<not> falsy (env_ACCESS_KEY w)" "\<not> falsy (env_SECRET_KEY w)"
    by simp_all
  show "upload_image_to_digital_ocean_spaces w input =
          (Inl e, [NewS3Client (client_of w), ReadFile p,
                   ConsoleError [''Error:'', message e]])"
    by (simp add: run_acquire_fails [OF creds acq])
qed

theorem local_acquisition_witness:
  "source local_request = Local ''/tmp/a.png''
   \<and> acquire sample_world (source local_request)
       = (Inr [0x89, 0x50, 0x4E, 0x47], [ReadFile ''/tmp/a.png''])
   \<and> take 3 (snd (upload_image_to_digital_ocean_spaces sample_world local_request))
       = [NewS3Client (client_of sample_world), ReadFile ''/tmp/a.png'',
          SharpAvif [0x89, 0x50, 0x4E, 0x47] 85]
   \<and> source missing_file_request = Local ''/tmp/none.png''
   \<and> upload_image_to_digital_ocean_spaces sample_world missing_file_request =
       (Inl (Error ''ENOENT: no such file or directory''),
        [NewS3Client (client_of sample_world), ReadFile ''/tmp/none.png'',
         ConsoleError [''Error:'', ''ENOENT: no such file or directory'']])"
proof -
  have s1: "source local_request = Local ''/tmp/a.png''"
    by (simp add: local_request_def)
  have s2: "source missing_file_request = Local ''/tmp/none.png''"
    by (simp add: missing_file_request_def)
  from local_acquisition [OF s1, of sample_world]
       local_acquisition [OF s2, of sample_world]
       s1 s2 sample_credentials sample_world_fields(2,3)
  show ?thesis by simp
qed

text \<open>
  C2. When the source is remote and the response to the GET has a status outside 200-299,
  the run fails and calls neither the transcoder nor the upload; with credentials present
  the error is the download error of line 45 and the only call is the fetch.
\<close>

theorem non_2xx_download_fails:
  assumes "source input = Remote url" "http_get w url = Inr resp" "\<not> response_ok resp"
  shows "(\<exists>e. fst (upload_image_to_digital_ocean_spaces w input) = Inl e)
         \<and> filter is_transcode (snd (upload_image_to_digital_ocean_spaces w input)) = []
         \<and> filter is_upload (snd (upload_image_to_digital_ocean_spaces w input)) = []
         \<and> (\<not> falsy (env_ACCESS_KEY w) \<and> \<not> falsy (env_SECRET_KEY w) \<longrightarrow>
              upload_image_to_digital_ocean_spaces w input =
                (Inl (Error (''Failed to download image from '' @ url @ '': ''
                             @ statusText resp)),
                 [NewS3Client (client_of w), Fetch url,
                  ConsoleError [''Error:'',
                                ''Failed to download image from '' @ url @ '': ''
                                @ statusText resp]]))"
proof (cases "falsy (env_ACCESS_KEY w) \<or> falsy (env_SECRET_KEY w)")
  case True
  then show ?thesis
    by (auto simp: run_without_credentials)
next
  case False
  then have creds: "\<not> falsy (env_ACCESS_KEY w)" "\<not> falsy (env_SECRET_KEY w)"
    by simp_all
  have acq: "acquire w (source input) =
               (Inl (Error (''Failed to download image from '' @ url @ '': ''
                            @ statusText resp)), [Fetch url])"
    using assms by (simp add: acquire_def download_image_not_ok)
  show ?thesis
    by (simp add: run_acquire_fails [OF creds acq])
qed

lemma sample_404_response:
  "\<not> response_ok \<lparr>status = 404, statusText = ''Not Found'', arrayBuffer = Inr []\<rparr>"
  by (simp add: response_ok_def)

theorem non_2xx_download_fails_witness:
  "source remote_404_request = Remote ''https://example.com/gone.png''
   \<and> http_get sample_world ''https://example.com/gone.png''
       = Inr \<lparr>status = 404, statusText = ''Not Found'', arrayBuffer = Inr []\<rparr>
   \<and> \<not> response_ok \<lparr>status = 404, statusText = ''Not Found'', arrayBuffer = Inr []\<rparr>
   \<and> upload_image_to_digital_ocean_spaces sample_world remote_404_request =
       (Inl (Error ''Failed to download image from https://example.com/gone.png: Not Found''),
        [NewS3Client (client_of sample_world), Fetch ''https://example.com/gone.png'',
         ConsoleError [''Error:'',
           ''Failed to download image from https://example.com/gone.png: Not Found'']])"
proof -
  have s: "source remote_404_request = Remote ''https://example.com/gone.png''"
    by (simp add: remote_404_request_def)
  from non_2xx_download_fails [OF s sample_world_fields(5) sample_404_response]
       sample_credentials s sample_world_fields(5) sample_404_response
  show ?thesis by simp
qed

text \<open>
  C9. With credentials present, an input whose source type is neither \<^verbatim>\<open>'local'\<close> nor
  \<^verbatim>\<open>'remote'\<close> fails with the error \<^verbatim>\<open>Invalid input type\<close>, and the run reads no file,
  fetches nothing, transcodes nothing and uploads nothing.
\<close>

theorem invalid_input_type:
  assumes "source input = Unknown t" "t \<noteq> ''local''" "t \<noteq> ''remote''"
    and "\<not> falsy (env_ACCESS_KEY w)" "\<not> falsy (env_SECRET_KEY w)"
  shows "upload_image_to_digital_ocean_spaces w input =
           (Inl (Error ''Invalid input type''),
            [NewS3Client (client_of w), ConsoleError [''Error:'', ''Invalid input type'']])
         \<and> filter is_effect (snd (upload_image_to_digital_ocean_spaces w input)) = []"
proof -
  have acq: "acquire w (source input) = (Inl (Error ''Invalid input type''), [])"
    using assms(1) by (simp add: acquire_def)
  show ?thesis
    by (simp add: run_acquire_fails [OF assms(4,5) acq])
qed

theorem invalid_input_type_witness:
  "source unknown_request = Unknown ''s3'' \<and> ''s3'' \<noteq> ''local'' \<and> ''s3'' \<noteq> ''remote''
   \<and> \<not> falsy (env_ACCESS_KEY sample_world) \<and> \<not> falsy (env_SECRET_KEY sample_world)
   \<and> upload_image_to_digital_ocean_spaces sample_world unknown_request =
       (Inl (Error ''Invalid input type''),
        [NewS3Client (client_of sample_world),
         ConsoleError [''Error:'', ''Invalid input type'']])
   \<and> filter is_effect (snd (upload_image_to_digital_ocean_spaces sample_world unknown_request))
       = []"
proof -
  have s: "source unknown_request = Unknown ''s3''"
    by (simp add: unknown_request_def)
  have n: "''s3'' \<noteq> ''local''" "''s3'' \<noteq> ''remote''"
    by simp_all
  from invalid_input_type [OF s n sample_credentials] s n sample_credentials
  show ?thesis by simp
qed

subsection \<open>Errors at the boundary\<close>




subsection \<open>Result or error\<close>

text \<open>
  C6. A run returns the result exactly when the credentials are set, the bytes are
  acquired, sharp converts them and the upload of sharp's output under the generated key
  is reported done; the result is then the complete URL, and the run is the client, the
  acquisition, the conversion, that upload and the success message. In every other case,
  and only then, the caller receives an error and no result, and no success is reported.
\<close>

theorem full_result_or_error:
  "(upload_image_to_digital_ocean_spaces w input = (Inr out, t) \<longleftrightarrow>
      \<not> falsy (env_ACCESS_KEY w) \<and> \<not> falsy (env_SECRET_KEY w)
      \<and> (\<exists>b ev a.
            ((\<exists>p. source input = Local p \<and> disk w p = Inr b \<and> ev = ReadFile p)
             \<or> (\<exists>u resp. source input = Remote u \<and> http_get w u = Inr resp \<and> response_ok resp
                    \<and> arrayBuffer resp = Inr b \<and> ev = Fetch u))
            \<and> sharp_avif_toBuffer w 85 b = Inr a
            \<and> upload_done w (client_of w)
                  \<lparr>Bucket = bucket_name (dest input),
                   Key = generate_object_key (dest input) (uuidv4 w),
                   Body = a, ACL = ''public-read'', ContentType = ''image/avif''\<rparr> = Inr ()
            \<and> out = \<lparr>optimized_img_url =
                    ''https://'' @ bucket_name (dest input) @ ''.nyc3.cdn.digitaloceanspaces.com/''
                    @ generate_object_key (dest input) (uuidv4 w)\<rparr>
            \<and> t = [NewS3Client (client_of w), ev, SharpAvif b 85,
                     Upload (client_of w)
                       \<lparr>Bucket = bucket_name (dest input),
                   Key = generate_object_key (dest input) (uuidv4 w),
                   Body = a, ACL = ''public-read'', ContentType = ''image/avif''\<rparr>
                       4 5242880,
                     ConsoleLog (success_message input (generate_object_key (dest input) (uuidv4 w)))]))
   \<and> ((\<exists>e t'. upload_image_to_digital_ocean_spaces w input = (Inl e, t')
                \<and> filter is_console_log t' = [])
        \<longleftrightarrow>
        \<not> (\<not> falsy (env_ACCESS_KEY w) \<and> \<not> falsy (env_SECRET_KEY w)
           \<and> (\<exists>b a.
                 ((\<exists>p. source input = Local p \<and> disk w p = Inr b)
                  \<or> (\<exists>u resp. source input = Remote u \<and> http_get w u = Inr resp \<and> response_ok resp
                         \<and> arrayBuffer resp = Inr b))
                 \<and> sharp_avif_toBuffer w 85 b = Inr a
                 \<and> upload_done w (client_of w)
                       \<lparr>Bucket = bucket_name (dest input),
                   Key = generate_object_key (dest input) (uuidv4 w),
                   Body = a, ACL = ''public-read'', ContentType = ''image/avif''\<rparr> = Inr ())))"
  (is "(?res \<longleftrightarrow> ?c1 \<and> ?c2 \<and> ?done) \<and> (?rej \<longleftrightarrow> \<not> (?c1 \<and> ?c2 \<and> ?ok))")
proof
  let ?k = "generate_object_key (dest input) (uuidv4 w)"
  have "?res \<longleftrightarrow> ?c1 \<and> ?c2 \<and>
          (\<exists>b t1 a. acquire w (source input) = (Inr b, t1)
             \<and> sharp_avif_toBuffer w 85 b = Inr a
             \<and> upload_done w (client_of w) (uploadParams input ?k a) = Inr ()
             \<and> out = \<lparr>optimized_img_url =
                     ''https://'' @ bucket_name (dest input) @ ''.nyc3.cdn.digitaloceanspaces.com/''
                     @ ?k\<rparr>
             \<and> t = NewS3Client (client_of w) # t1 @
                     [SharpAvif b 85,
                      Upload (client_of w) (uploadParams input ?k a) 4 5242880,
                      ConsoleLog (success_message input ?k)])"
    by (auto simp: run_Inr_iff try_block_Inr_iff)
  also have "\<dots> \<longleftrightarrow> ?c1 \<and> ?c2 \<and> ?done"
    by (auto simp: acquire_Inr uploadParams_def)
  finally show "?res \<longleftrightarrow> ?c1 \<and> ?c2 \<and> ?done" .
  have ok: "(\<exists>out t. upload_image_to_digital_ocean_spaces w input = (Inr out, t))
              \<longleftrightarrow> ?c1 \<and> ?c2 \<and> ?ok"
    unfolding run_succeeds_iff by (auto simp: acquire_Inr uploadParams_def)
  obtain r t' where run: "upload_image_to_digital_ocean_spaces w input = (r, t')"
    by (cases "upload_image_to_digital_ocean_spaces w input")
  have "?rej \<longleftrightarrow> \<not> (\<exists>out t. upload_image_to_digital_ocean_spaces w input = (Inr out, t))"
    using run run_fails_no_success_message [of w input _ t'] by (cases r) auto
  with ok show "?rej \<longleftrightarrow> \<not> (?c1 \<and> ?c2 \<and> ?ok)"
    by simp
qed

theorem full_result_or_error_witness:
  "upload_image_to_digital_ocean_spaces sample_world local_request =
     (Inr \<lparr>optimized_img_url =
            ''https://assets.nyc3.cdn.digitaloceanspaces.com/img/hero-1b9d6bcd-bbfd-4b2d-9b5d-ab8dfbbd4bed.avif''\<rparr>,
      [NewS3Client (client_of sample_world),
       ReadFile ''/tmp/a.png'',
       SharpAvif [0x89, 0x50, 0x4E, 0x47] 85,
       Upload (client_of sample_world)
         \<lparr>Bucket = ''assets'',
          Key = ''img/hero-1b9d6bcd-bbfd-4b2d-9b5d-ab8dfbbd4bed.avif'',
          Body = [0, 0, 0, 0x89, 0x50, 0x4E, 0x47],
          ACL = ''public-read'', ContentType = ''image/avif''\<rparr> 4 5242880,
       ConsoleLog (success_message local_request
                     ''img/hero-1b9d6bcd-bbfd-4b2d-9b5d-ab8dfbbd4bed.avif'')])
   \<and> (\<exists>e t. upload_image_to_digital_ocean_spaces sample_world missing_file_request = (Inl e, t)
              \<and> filter is_console_log t = [])"
proof
  have sh: "sharp_avif_toBuffer sample_world 85 [0x89, 0x50, 0x4E, 0x47]
              = Inr [0, 0, 0, 0x89, 0x50, 0x4E, 0x47]"
    by (simp add: sample_world_def)
  have up: "upload_done sample_world c
              \<lparr>Bucket = ''assets'', Key = k, Body = a,
               ACL = ''public-read'', ContentType = ''image/avif''\<rparr> = Inr ()" for c k a
    by (simp add: sample_world_def)
  have bucket: "bucket_name sample_dest = ''assets''"
    by (simp add: sample_dest_def)
  show "upload_image_to_digital_ocean_spaces sample_world local_request =
     (Inr \<lparr>optimized_img_url =
            ''https://assets.nyc3.cdn.digitaloceanspaces.com/img/hero-1b9d6bcd-bbfd-4b2d-9b5d-ab8dfbbd4bed.avif''\<rparr>,
      [NewS3Client (client_of sample_world),
       ReadFile ''/tmp/a.png'',
       SharpAvif [0x89, 0x50, 0x4E, 0x47] 85,
       Upload (client_of sample_world)
         \<lparr>Bucket = ''assets'',
          Key = ''img/hero-1b9d6bcd-bbfd-4b2d-9b5d-ab8dfbbd4bed.avif'',
          Body = [0, 0, 0, 0x89, 0x50, 0x4E, 0x47],
          ACL = ''public-read'', ContentType = ''image/avif''\<rparr> 4 5242880,
       ConsoleLog (success_message local_request
                     ''img/hero-1b9d6bcd-bbfd-4b2d-9b5d-ab8dfbbd4bed.avif'')])"
    by (rule iffD2 [OF full_result_or_error [THEN conjunct1]])
       (simp add: sample_credentials local_request_def sample_world_fields sample_key
          bucket sh up)
  show "\<exists>e t. upload_image_to_digital_ocean_spaces sample_world missing_file_request = (Inl e, t)
              \<and> filter is_console_log t = []"
    by (rule iffD2 [OF full_result_or_error [THEN conjunct2]])
       (simp add: missing_file_request_def sample_world_fields)
qed

subsection \<open>What the key and the URL depend on\<close>

text \<open>
  C10. Two successful runs with the same bucket, folder and slug and the same identifier
  return the same result and upload under the same key, whatever their sources, file
  systems, networks and image bytes; the URL is
  \<^verbatim>\<open>https://<bucket>.nyc3.cdn.digitaloceanspaces.com/<key>\<close>, with the region \<^verbatim>\<open>nyc3\<close>.
\<close>

theorem key_and_url_depend_on_dest_and_uuid:
  assumes "upload_image_to_digital_ocean_spaces w1 i1 = (Inr o1, t1)"
    and "upload_image_to_digital_ocean_spaces w2 i2 = (Inr o2, t2)"
    and "bucket_name (dest i1) = bucket_name (dest i2)"
    and "object_folder (dest i1) = object_folder (dest i2)"
    and "object_slug (dest i1) = object_slug (dest i2)"
    and "uuidv4 w1 = uuidv4 w2"
  shows "o1 = o2
         \<and> upload_keys t1 = upload_keys t2
         \<and> upload_keys t1 = [generate_object_key (dest i1) (uuidv4 w1)]
         \<and> optimized_img_url o1 =
             ''https://'' @ bucket_name (dest i1) @ ''.'' @ ''nyc3''
             @ ''.cdn.digitaloceanspaces.com/'' @ generate_object_key (dest i1) (uuidv4 w1)"
proof -
  have key: "generate_object_key (dest i1) (uuidv4 w1) = generate_object_key (dest i2) (uuidv4 w2)"
    using assms(4-6) by (simp add: generate_object_key_def)
  have shape: "out = \<lparr>optimized_img_url =
                        ''https://'' @ bucket_name (dest i) @ ''.nyc3.cdn.digitaloceanspaces.com/''
                        @ generate_object_key (dest i) (uuidv4 w)\<rparr>
               \<and> upload_keys t = [generate_object_key (dest i) (uuidv4 w)]"
    if "upload_image_to_digital_ocean_spaces w i = (Inr out, t)" for w i out t
  proof -
    from run_Inr [OF that] obtain b t1 a where
      acq: "acquire w (source i) = (Inr b, t1)" and
      out: "out = \<lparr>optimized_img_url =
                     ''https://'' @ bucket_name (dest i) @ ''.nyc3.cdn.digitaloceanspaces.com/''
                     @ generate_object_key (dest i) (uuidv4 w)\<rparr>" and
      t: "t = NewS3Client (client_of w) # t1 @
                [SharpAvif b 85,
                 Upload (client_of w)
                   (uploadParams i (generate_object_key (dest i) (uuidv4 w)) a)
                   4 5242880,
                 ConsoleLog (success_message i (generate_object_key (dest i) (uuidv4 w)))]"
      by blast
    from acq acquire_events(5) [of w "source i"] have "upload_keys t1 = []"
      by simp
    with t out show ?thesis
      by (simp add: upload_keys_append uploadParams_def)
  qed
  from shape [OF assms(1)] shape [OF assms(2)] key assms(3) show ?thesis
    by simp
qed

theorem key_and_url_depend_on_dest_and_uuid_witness:
  "source local_request \<noteq> source remote_request
   \<and> fst (upload_image_to_digital_ocean_spaces sample_world local_request)
       = fst (upload_image_to_digital_ocean_spaces sample_world remote_request)
   \<and> upload_keys (snd (upload_image_to_digital_ocean_spaces sample_world local_request))
       = upload_keys (snd (upload_image_to_digital_ocean_spaces sample_world remote_request))
   \<and> fst (upload_image_to_digital_ocean_spaces sample_world local_request)
       = Inr \<lparr>optimized_img_url =
           ''https://assets.nyc3.cdn.digitaloceanspaces.com/img/hero-1b9d6bcd-bbfd-4b2d-9b5d-ab8dfbbd4bed.avif''\<rparr>"
proof -
  have d: "bucket_name (dest local_request) = bucket_name (dest remote_request)"
    "object_folder (dest local_request) = object_folder (dest remote_request)"
    "object_slug (dest local_request) = object_slug (dest remote_request)"
    by (simp_all add: local_request_def remote_request_def)
  have s: "source local_request \<noteq> source remote_request"
    by (simp add: local_request_def remote_request_def)
  from key_and_url_depend_on_dest_and_uuid [OF sample_local_run sample_remote_run d refl] s
  show ?thesis
    by (simp add: sample_local_run sample_remote_run)
qed

subsection \<open>Transcoding\<close>

text \<open>
  What the code contributes to the transcoding step: with credentials, once the bytes are
  acquired, sharp is called exactly once, on those bytes, for AVIF at quality 85, and an
  error of sharp is the error of the run. What sharp answers is a parameter of the model.
\<close>

lemma transcoder_call:
  assumes "\<not> falsy (env_ACCESS_KEY w)" "\<not> falsy (env_SECRET_KEY w)"
    and "acquire w (source input) = (Inr b, t1)"
  shows "filter is_transcode (snd (upload_image_to_digital_ocean_spaces w input))
           = [SharpAvif b 85]"
    and "sharp_avif_toBuffer w 85 b = Inl e \<Longrightarrow>
           fst (upload_image_to_digital_ocean_spaces w input) = Inl e"
  using assms(3) acquire_events(1) [of w "source input"]
  by (simp_all add: run_with_credentials [OF assms(1,2)] try_block_def Let_def
        split: sum.splits)

end
